theory Spec2Isabelle
  imports Main "HOL-Library.Sublist"
begin

section \<open>The data module of the GigaSpeech recipe (asr_datamodule.py)\<close>

text \<open>
  The module assembles data loaders from a namespace of options. Every class it
  instantiates (the augmentation transform, the dataset, the two samplers, the loader)
  belongs to an external library, so an object of such a class is modelled as the
  constructor call that made it: a record or a datatype of the arguments the module
  passes. A keyword argument that a call site leaves out is \<open>None\<close> in a field of
  option type, so that a call with the argument and a call without it stay different.
  Python integers are \<open>int\<close>. The \<open>logging\<close> calls write to the log only and are
  left out.
\<close>

subsection \<open>Errors\<close>

datatype error =
    KeyError string               \<comment> \<open>a missing key of \<open>Signature.parameters\<close>\<close>
  | ManifestFault "string list"   \<comment> \<open>the manifest at this path could not be loaded\<close>

subsection \<open>The arguments namespace\<close>

type_synonym path = "string list"

text \<open>A path is the list of its components; \<open>d / name\<close> appends one component.\<close>

definition path_join :: "path \<Rightarrow> string \<Rightarrow> path" where
  "path_join d name = d @ [name]"

record Namespace =
  manifest_dir :: path
  max_duration :: int
  bucketing_sampler :: bool
  num_buckets :: int
  shuffle :: bool
  drop_last :: bool
  return_cuts :: bool
  num_workers :: int
  enable_spec_aug :: bool
  spec_aug_time_warp_factor :: int
  enable_gaussian_noise :: bool
  input_strategy :: string
  subset :: string
  small_dev :: bool

text \<open>The defaults that \<open>add_arguments\<close> declares, option by option.\<close>

definition add_arguments :: Namespace where
  "add_arguments =
     \<lparr> manifest_dir = [''data'', ''fbank''],
       max_duration = 1000,
       bucketing_sampler = True,
       num_buckets = 30,
       shuffle = True,
       drop_last = True,
       return_cuts = True,
       num_workers = 2,
       enable_spec_aug = True,
       spec_aug_time_warp_factor = 80,
       enable_gaussian_noise = True,
       input_strategy = ''AudioSamples'',
       subset = ''M'',
       small_dev = False \<rparr>"

text \<open>
  An instance of \<open>GigaSpeechAsrDataModule\<close>: \<open>__init__\<close> stores the namespace.
  \<open>self_id\<close> is the identity of the object, which is what its default hash and
  equality compare.
\<close>

record GigaSpeechAsrDataModule =
  self_id :: nat
  args :: Namespace

subsection \<open>What the process provides\<close>

text \<open>
  A default value as \<open>inspect\<close> reports it. \<open>PyEmpty\<close> is
  \<open>inspect.Parameter.empty\<close>, the default of a parameter that has none.
\<close>

datatype pyval = PyInt int | PyBool bool | PyStr string | PyNone | PyEmpty

text \<open>Python's \<open>v == n\<close> for an integer \<open>n\<close>; \<open>True == 1\<close> and \<open>False == 0\<close> hold.\<close>

fun py_eq_int :: "pyval \<Rightarrow> int \<Rightarrow> bool" where
  "py_eq_int (PyInt m) n = (m = n)"
| "py_eq_int (PyBool b) n = ((if b then 1 else 0) = n)"
| "py_eq_int _ n = False"

text \<open>
  The installed library, as far as the module looks at it: the parameters of
  \<open>DiscretizedInputAugment.__init__\<close> with their defaults, and the state of the
  random number generator of the main process.
\<close>

record environment =
  augment_init_parameters :: "string \<rightharpoonup> pyval"
  random_state :: int

subsection \<open>Worker seeding\<close>

text \<open>
  Modelled from the spec: \<open>fix_random_seed\<close> of the external library installs its
  argument as the seed of the worker's random number generators.
\<close>

definition fix_random_seed :: "int \<Rightarrow> int \<Rightarrow> int" where
  "fix_random_seed new_seed worker_random_state = new_seed"

record SeedWorkers =
  seed :: int

definition SeedWorkers_init :: "int \<Rightarrow> SeedWorkers" where
  "SeedWorkers_init s = \<lparr> seed = s \<rparr>"

definition SeedWorkers_call :: "SeedWorkers \<Rightarrow> int \<Rightarrow> int \<Rightarrow> int" where
  "SeedWorkers_call self worker_id worker_random_state =
     fix_random_seed (seed self + worker_id) worker_random_state"

subsection \<open>Objects of the external library\<close>

datatype transform =
  DiscretizedInputAugment
    (token_type: string)
    (time_warp_factor: int)
    (num_frame_masks: int)
    (tokens_mask_size: int)
    (num_token_masks: int)
    (frames_mask_size: int)

record DiscretizedInputSpeechRecognitionDataset =
  ds_field :: string
  ds_num_tokens :: int
  ds_frequency_size :: "int option"
  ds_token_type :: string
  ds_input_transforms :: "transform list option"

text \<open>
  The two sampler classes with the arguments of their call sites, in the order
  cuts, \<open>max_duration\<close>, \<open>shuffle\<close>, and for the bucketing sampler \<open>num_buckets\<close>
  and \<open>drop_last\<close>, which the validation and test loaders leave out.
\<close>

datatype 'cs sampler_ctor =
    DynamicBucketingSampler 'cs int bool "int option" "bool option"
  | SimpleCutSampler 'cs int bool

record ('cs, 'sd) Sampler =
  constructed :: "'cs sampler_ctor"
  state_dict :: "'sd option"

definition new_sampler :: "'cs sampler_ctor \<Rightarrow> ('cs, 'sd) Sampler" where
  "new_sampler c = \<lparr> constructed = c, state_dict = None \<rparr>"

definition load_state_dict :: "('cs, 'sd) Sampler \<Rightarrow> 'sd \<Rightarrow> ('cs, 'sd) Sampler" where
  "load_state_dict s sd = s\<lparr> state_dict := Some sd \<rparr>"

text \<open>
  The loader. \<open>dl_batch_size\<close> is the value passed (\<open>None\<close> is Python's \<open>None\<close>,
  every call site passes it); \<open>dl_persistent_workers\<close> and \<open>dl_worker_init_fn\<close>
  are \<open>None\<close> where the call site leaves the argument out.
\<close>

record ('cs, 'sd) DataLoader =
  dl_dataset :: DiscretizedInputSpeechRecognitionDataset
  dl_sampler :: "('cs, 'sd) Sampler"
  dl_batch_size :: "int option"
  dl_num_workers :: int
  dl_persistent_workers :: "bool option"
  dl_worker_init_fn :: "SeedWorkers option"

fun sampler_shuffle :: "'cs sampler_ctor \<Rightarrow> bool" where
  "sampler_shuffle (DynamicBucketingSampler c d sh nb dl) = sh"
| "sampler_shuffle (SimpleCutSampler c d sh) = sh"

fun is_bucketing :: "'cs sampler_ctor \<Rightarrow> bool" where
  "is_bucketing (DynamicBucketingSampler c d sh nb dl) = True"
| "is_bucketing (SimpleCutSampler c d sh) = False"

subsection \<open>The three loader factories\<close>

text \<open>
  \<open>train_dataloaders\<close> comes in two definitions: \<open>train_input_transforms\<close> is
  its first part, which fills the list \<open>input_transforms\<close> (lines 186 to 211), and
  \<open>train_dataloaders\<close> goes on from there. Looking up
  \<open>parameters["num_frame_masks"]\<close> raises \<open>KeyError\<close> when the installed class
  has no such parameter; nothing catches it. A default that is a float is not
  modelled. The faults that the constructors of the library and \<open>load_state_dict\<close>
  raise on arguments they reject are not modelled either: where the model gives
  \<open>Inr\<close>, the real call returns that loader or raises inside the library. What is
  proved of a loader is therefore proved of every loader that is returned, and
  nothing below says that one is.
\<close>

definition train_input_transforms ::
  "environment \<Rightarrow> GigaSpeechAsrDataModule \<Rightarrow> error + transform list" where
  "train_input_transforms env self =
     (if enable_spec_aug (args self) then
        (case augment_init_parameters env ''num_frame_masks'' of
           None \<Rightarrow> Inl (KeyError ''num_frame_masks'')
         | Some num_frame_masks_parameter_default \<Rightarrow>
             let num_frame_masks =
                   (if py_eq_int num_frame_masks_parameter_default 1 then 2 else 10)
             in Inr ([] @
                  [DiscretizedInputAugment ''wavlm''
                     (spec_aug_time_warp_factor (args self))
                     num_frame_masks 27 4 100]))
      else Inr [])"

definition train_dataloaders ::
  "environment \<Rightarrow> GigaSpeechAsrDataModule \<Rightarrow> 'cs \<Rightarrow> 'sd option
     \<Rightarrow> error + ('cs, 'sd) DataLoader" where
  "train_dataloaders env self cuts_train sampler_state_dict =
     (case train_input_transforms env self of
        Inl e \<Rightarrow> Inl e
      | Inr input_transforms \<Rightarrow>
          let train = \<lparr> ds_field = ''discrete_tokens'',
                        ds_num_tokens = 2000,
                        ds_frequency_size = Some 80,
                        ds_token_type = ''wavlm'',
                        ds_input_transforms = Some input_transforms \<rparr>;
              train_sampler =
                (if bucketing_sampler (args self) then
                   new_sampler (DynamicBucketingSampler cuts_train
                     (max_duration (args self))
                     (shuffle (args self))
                     (Some (num_buckets (args self)))
                     (Some (drop_last (args self))))
                 else
                   new_sampler (SimpleCutSampler cuts_train
                     (max_duration (args self))
                     (shuffle (args self))));
              train_sampler =
                (case sampler_state_dict of
                   None \<Rightarrow> train_sampler
                 | Some sd \<Rightarrow> load_state_dict train_sampler sd);
              seed = 42;
              worker_init_fn = SeedWorkers_init seed
          in Inr \<lparr> dl_dataset = train,
                   dl_sampler = train_sampler,
                   dl_batch_size = None,
                   dl_num_workers = num_workers (args self),
                   dl_persistent_workers = Some False,
                   dl_worker_init_fn = Some worker_init_fn \<rparr>)"

definition valid_dataloaders ::
  "GigaSpeechAsrDataModule \<Rightarrow> 'cs \<Rightarrow> ('cs, 'sd) DataLoader" where
  "valid_dataloaders self cuts_valid =
     (let validate = \<lparr> ds_field = ''discrete_tokens'',
                        ds_num_tokens = 2000,
                        ds_frequency_size = None,
                        ds_token_type = ''wavlm'',
                        ds_input_transforms = None \<rparr>;
          valid_sampler =
            new_sampler (DynamicBucketingSampler cuts_valid
              (max_duration (args self)) False None None)
      in \<lparr> dl_dataset = validate,
           dl_sampler = valid_sampler,
           dl_batch_size = None,
           dl_num_workers = 2,
           dl_persistent_workers = Some False,
           dl_worker_init_fn = None \<rparr>)"

definition test_dataloaders ::
  "GigaSpeechAsrDataModule \<Rightarrow> 'cs \<Rightarrow> ('cs, 'sd) DataLoader" where
  "test_dataloaders self cuts =
     (let test = \<lparr> ds_field = ''discrete_tokens'',
                    ds_num_tokens = 2000,
                    ds_frequency_size = None,
                    ds_token_type = ''wavlm'',
                    ds_input_transforms = None \<rparr>;
          sampler =
            new_sampler (DynamicBucketingSampler cuts
              (max_duration (args self)) False None None)
      in \<lparr> dl_dataset = test,
           dl_sampler = sampler,
           dl_batch_size = None,
           dl_num_workers = num_workers (args self),
           dl_persistent_workers = None,
           dl_worker_init_fn = None \<rparr>)"

subsection \<open>Cut sets and object identity\<close>

text \<open>
  The claims about memoization speak of the same instance, so every cut set carries the
  identity it was created with. Creating an object takes the next unused identity; a
  computation that creates objects and may raise is a function from the next unused
  identity to its outcome and the identity after it.
\<close>

datatype 'a obj = Obj (obj_id: nat) (obj_value: 'a)

type_synonym 'a alloc = "nat \<Rightarrow> (error + 'a) \<times> nat"

definition new_obj :: "'a \<Rightarrow> 'a obj alloc" where
  "new_obj v n = (Inr (Obj n v), Suc n)"

definition raise :: "error \<Rightarrow> 'a alloc" where
  "raise e n = (Inl e, n)"

definition return :: "'a \<Rightarrow> 'a alloc" where
  "return v n = (Inr v, n)"

definition and_then :: "'a alloc \<Rightarrow> ('a \<Rightarrow> 'b alloc) \<Rightarrow> 'b alloc" where
  "and_then m f n = (case m n of (Inl e, n') \<Rightarrow> (Inl e, n') | (Inr a, n') \<Rightarrow> f a n')"

text \<open>
  A cut set read from one manifest is the list of its cuts in the order of the file.
  The manifests on disk are a partial map from paths to such lists.

  Modelled from the spec: \<open>load_manifest_lazy\<close> of the external library gives the cut
  set of the manifest at the path, and a missing manifest is a fault that propagates.
\<close>

definition load_manifest_lazy :: "(path \<rightharpoonup> 'c list) \<Rightarrow> path \<Rightarrow> 'c list obj alloc" where
  "load_manifest_lazy fs p =
     (case fs p of None \<Rightarrow> raise (ManifestFault p) | Some cuts \<Rightarrow> new_obj cuts)"

text \<open>
  Modelled from the spec: \<open>CutSet.subset(first=n)\<close> of the external library gives a
  new cut set of the first \<open>n\<close> cuts.
\<close>

definition subset_first :: "nat \<Rightarrow> 'c list obj \<Rightarrow> 'c list obj alloc" where
  "subset_first n cuts = new_obj (take n (obj_value cuts))"

text \<open>
  \<open>CutSet.mux(*cut_sets, weights=...)\<close> is kept as its call: the streams and the
  weights. The interleaving itself is the library's.
\<close>

datatype 'c mux = Mux (streams: "'c list obj list") (weights: "int list")

definition CutSet_mux :: "'c list obj list \<Rightarrow> int list \<Rightarrow> 'c mux obj alloc" where
  "CutSet_mux cut_sets ws = new_obj (Mux cut_sets ws)"

subsection \<open>The bodies of the three accessors\<close>

text \<open>
  The functions under the \<open>lru_cache\<close> decorator (Python's \<open>__wrapped__\<close>). A subset
  other than M and XL takes neither branch of \<open>train_cuts\<close>, which then returns
  Python's \<open>None\<close>.
\<close>

definition train_cuts_wrapped ::
  "(path \<rightharpoonup> 'c list) \<Rightarrow> GigaSpeechAsrDataModule \<Rightarrow> 'c mux obj option alloc" where
  "train_cuts_wrapped fs self =
     (if subset (args self) = ''M'' then
        and_then (load_manifest_lazy fs
          (path_join (manifest_dir (args self)) ''gigaspeech_cuts_M_future.jsonl.gz''))
          (\<lambda>train_cuts.
        and_then (load_manifest_lazy fs
          (path_join (manifest_dir (args self)) ''gigaspeech_cuts_M-sp0_9_future.jsonl.gz''))
          (\<lambda>train_cuts_sp_0_9.
        and_then (load_manifest_lazy fs
          (path_join (manifest_dir (args self)) ''gigaspeech_cuts_M-sp1_1_future.jsonl.gz''))
          (\<lambda>train_cuts_sp_1_1.
        and_then (CutSet_mux [train_cuts, train_cuts_sp_0_9, train_cuts_sp_1_1]
                    [909401, 909401, 909401])
          (\<lambda>m. return (Some m)))))
      else if subset (args self) = ''XL'' then
        and_then (load_manifest_lazy fs
          (path_join (manifest_dir (args self)) ''gigaspeech_cuts_XL.jsonl.gz''))
          (\<lambda>train_cuts.
        and_then (load_manifest_lazy fs
          (path_join (manifest_dir (args self)) ''gigaspeech_cuts_XL-sp0_9.jsonl.gz''))
          (\<lambda>train_cuts_sp_0_9.
        and_then (load_manifest_lazy fs
          (path_join (manifest_dir (args self)) ''gigaspeech_cuts_XL-sp1_1.jsonl.gz''))
          (\<lambda>train_cuts_sp_1_1.
        and_then (CutSet_mux [train_cuts, train_cuts_sp_0_9, train_cuts_sp_1_1]
                    [8277188, 8277188, 8277188])
          (\<lambda>m. return (Some m)))))
      else return None)"

definition dev_cuts_wrapped ::
  "(path \<rightharpoonup> 'c list) \<Rightarrow> GigaSpeechAsrDataModule \<Rightarrow> 'c list obj alloc" where
  "dev_cuts_wrapped fs self =
     and_then (load_manifest_lazy fs
       (path_join (manifest_dir (args self)) ''gigaspeech_cuts_DEV_future.jsonl.gz''))
       (\<lambda>cuts_valid.
          if small_dev (args self) then subset_first 1000 cuts_valid
          else return cuts_valid)"

definition test_cuts_wrapped ::
  "(path \<rightharpoonup> 'c list) \<Rightarrow> GigaSpeechAsrDataModule \<Rightarrow> 'c list obj alloc" where
  "test_cuts_wrapped fs self =
     load_manifest_lazy fs
       (path_join (manifest_dir (args self)) ''gigaspeech_cuts_TEST_future.jsonl.gz'')"

subsection \<open>Memoization\<close>

text \<open>
  \<open>functools.lru_cache()\<close> with its default size of 128. The key of a call
  \<open>f(self)\<close> is \<open>self\<close>, compared by identity. The cache is a list of entries, the
  most recently used first. A hit returns the stored value and moves its entry to the
  front; a miss runs the function, stores nothing when it raises, and otherwise puts
  the new entry in front and drops the oldest one beyond the size.
\<close>

definition lru_maxsize :: nat where
  "lru_maxsize = 128"

definition lru_cache_call ::
  "(nat \<times> 'v) list \<Rightarrow> nat \<Rightarrow> 'v alloc \<Rightarrow> nat \<Rightarrow> (error + 'v) \<times> (nat \<times> 'v) list \<times> nat" where
  "lru_cache_call cache key user_function n =
     (case map_of cache key of
        Some v \<Rightarrow> (Inr v, (key, v) # filter (\<lambda>kv. fst kv \<noteq> key) cache, n)
      | None \<Rightarrow>
          (case user_function n of
             (Inl e, n') \<Rightarrow> (Inl e, cache, n')
           | (Inr v, n') \<Rightarrow> (Inr v, take lru_maxsize ((key, v) # cache), n')))"

text \<open>
  The state of the process that the accessors touch: the next unused identity and the
  cache of each decorated function (one cache per function, shared by all instances).
\<close>

record 'c process =
  next_id :: nat
  train_cuts_cache :: "(nat \<times> 'c mux obj option) list"
  dev_cuts_cache :: "(nat \<times> 'c list obj) list"
  test_cuts_cache :: "(nat \<times> 'c list obj) list"

definition train_cuts ::
  "(path \<rightharpoonup> 'c list) \<Rightarrow> GigaSpeechAsrDataModule \<Rightarrow> 'c process
     \<Rightarrow> (error + 'c mux obj option) \<times> 'c process" where
  "train_cuts fs self p =
     (case lru_cache_call (train_cuts_cache p) (self_id self)
             (train_cuts_wrapped fs self) (next_id p) of
        (r, cache', n') \<Rightarrow> (r, p\<lparr> next_id := n', train_cuts_cache := cache' \<rparr>))"

definition dev_cuts ::
  "(path \<rightharpoonup> 'c list) \<Rightarrow> GigaSpeechAsrDataModule \<Rightarrow> 'c process
     \<Rightarrow> (error + 'c list obj) \<times> 'c process" where
  "dev_cuts fs self p =
     (case lru_cache_call (dev_cuts_cache p) (self_id self)
             (dev_cuts_wrapped fs self) (next_id p) of
        (r, cache', n') \<Rightarrow> (r, p\<lparr> next_id := n', dev_cuts_cache := cache' \<rparr>))"

definition test_cuts ::
  "(path \<rightharpoonup> 'c list) \<Rightarrow> GigaSpeechAsrDataModule \<Rightarrow> 'c process
     \<Rightarrow> (error + 'c list obj) \<times> 'c process" where
  "test_cuts fs self p =
     (case lru_cache_call (test_cuts_cache p) (self_id self)
             (test_cuts_wrapped fs self) (next_id p) of
        (r, cache', n') \<Rightarrow> (r, p\<lparr> next_id := n', test_cuts_cache := cache' \<rparr>))"

text \<open>A process that has called no accessor yet.\<close>

definition fresh_process :: "'c process" where
  "fresh_process =
     \<lparr> next_id = 0, train_cuts_cache = [], dev_cuts_cache = [], test_cuts_cache = [] \<rparr>"

text \<open>
  A run of calls. Each call names the accessor and comes with the manifests on disk
  and the instance as they are at that moment, so that the files and the options may
  change between calls.
\<close>

datatype accessor = Train_cuts | Dev_cuts | Test_cuts

datatype 'c returned =
    Train_returned "error + 'c mux obj option"
  | Dev_returned "error + 'c list obj"
  | Test_returned "error + 'c list obj"

fun has_returned :: "'c returned \<Rightarrow> bool" where
  "has_returned (Train_returned r) = (\<not> isl r)"
| "has_returned (Dev_returned r) = (\<not> isl r)"
| "has_returned (Test_returned r) = (\<not> isl r)"

record 'c call =
  call_accessor :: accessor
  call_self :: GigaSpeechAsrDataModule
  call_fs :: "path \<rightharpoonup> 'c list"

definition do_call :: "'c call \<Rightarrow> 'c process \<Rightarrow> 'c returned \<times> 'c process" where
  "do_call c p =
     (case call_accessor c of
        Train_cuts \<Rightarrow> (case train_cuts (call_fs c) (call_self c) p of
                         (r, p') \<Rightarrow> (Train_returned r, p'))
      | Dev_cuts \<Rightarrow> (case dev_cuts (call_fs c) (call_self c) p of
                       (r, p') \<Rightarrow> (Dev_returned r, p'))
      | Test_cuts \<Rightarrow> (case test_cuts (call_fs c) (call_self c) p of
                        (r, p') \<Rightarrow> (Test_returned r, p')))"

fun do_calls :: "'c call list \<Rightarrow> 'c process \<Rightarrow> 'c returned list" where
  "do_calls [] p = []"
| "do_calls (c # cs) p = (case do_call c p of (r, p') \<Rightarrow> r # do_calls cs p')"

subsection \<open>Concrete inputs\<close>

text \<open>
  An installed library whose \<open>num_frame_masks\<close> defaults to 1, one whose default is
  10, an instance with the default options, and an instance with augmentation and
  bucketing switched off.
\<close>

definition library_default_1 :: environment where
  "library_default_1 =
     \<lparr> augment_init_parameters =
         [''time_warp_factor'' \<mapsto> PyInt 80, ''num_frame_masks'' \<mapsto> PyInt 1],
       random_state = 7 \<rparr>"

definition library_default_10 :: environment where
  "library_default_10 =
     \<lparr> augment_init_parameters =
         [''time_warp_factor'' \<mapsto> PyInt 80, ''num_frame_masks'' \<mapsto> PyInt 10],
       random_state = 12345 \<rparr>"

text \<open>A training cut set of 1500 cuts, with numbers for cuts.\<close>

definition training_cuts :: "nat list" where
  "training_cuts = [0..<1500]"

definition default_module :: GigaSpeechAsrDataModule where
  "default_module = \<lparr> self_id = 1, args = add_arguments \<rparr>"

definition plain_module :: GigaSpeechAsrDataModule where
  "plain_module =
     \<lparr> self_id = 2,
       args = add_arguments\<lparr> enable_spec_aug := False, bucketing_sampler := False,
                              num_workers := 8 \<rparr> \<rparr>"

text \<open>
  Manifests on disk, with numbers for cuts: the three streams of M and of XL, a dev
  manifest of 1500 cuts and a test manifest. The dev manifest of \<open>small_disk\<close> has
  three cuts only, and \<open>empty_disk\<close> has no manifest at all.
\<close>

definition disk :: "path \<rightharpoonup> nat list" where
  "disk =
     [[''data'', ''fbank'', ''gigaspeech_cuts_M_future.jsonl.gz''] \<mapsto> [10, 11, 12],
      [''data'', ''fbank'', ''gigaspeech_cuts_M-sp0_9_future.jsonl.gz''] \<mapsto> [20, 21, 22],
      [''data'', ''fbank'', ''gigaspeech_cuts_M-sp1_1_future.jsonl.gz''] \<mapsto> [30, 31, 32],
      [''data'', ''fbank'', ''gigaspeech_cuts_XL.jsonl.gz''] \<mapsto> [40, 41],
      [''data'', ''fbank'', ''gigaspeech_cuts_XL-sp0_9.jsonl.gz''] \<mapsto> [50, 51],
      [''data'', ''fbank'', ''gigaspeech_cuts_XL-sp1_1.jsonl.gz''] \<mapsto> [60, 61],
      [''data'', ''fbank'', ''gigaspeech_cuts_DEV_future.jsonl.gz''] \<mapsto> [0..<1500],
      [''data'', ''fbank'', ''gigaspeech_cuts_TEST_future.jsonl.gz''] \<mapsto> [70, 71, 72]]"

definition small_disk :: "path \<rightharpoonup> nat list" where
  "small_disk =
     [[''data'', ''fbank'', ''gigaspeech_cuts_DEV_future.jsonl.gz''] \<mapsto> [1, 2, 3]]"

definition empty_disk :: "path \<rightharpoonup> nat list" where
  "empty_disk = Map.empty"

definition subset_module :: "string \<Rightarrow> GigaSpeechAsrDataModule" where
  "subset_module s = \<lparr> self_id = 1, args = add_arguments\<lparr> subset := s \<rparr> \<rparr>"

definition small_dev_module :: "bool \<Rightarrow> GigaSpeechAsrDataModule" where
  "small_dev_module b = \<lparr> self_id = 1, args = add_arguments\<lparr> small_dev := b \<rparr> \<rparr>"

text \<open>
  A run of five calls on the instance with identity 1, during which the options and the
  disk change: the third call asks for the small dev set on a disk whose dev manifest
  differs, and the last two calls find no manifest at all.
\<close>

definition example_calls :: "nat call list" where
  "example_calls =
     [\<lparr> call_accessor = Dev_cuts, call_self = default_module, call_fs = disk \<rparr>,
      \<lparr> call_accessor = Train_cuts, call_self = default_module, call_fs = disk \<rparr>,
      \<lparr> call_accessor = Dev_cuts, call_self = small_dev_module True, call_fs = small_disk \<rparr>,
      \<lparr> call_accessor = Test_cuts, call_self = default_module, call_fs = empty_disk \<rparr>,
      \<lparr> call_accessor = Train_cuts, call_self = subset_module ''S'', call_fs = empty_disk \<rparr>]"

text \<open>What the cache of an accessor holds for the instance \<open>k\<close>, as a returned value.\<close>

definition cached :: "accessor \<Rightarrow> nat \<Rightarrow> 'c process \<Rightarrow> 'c returned option" where
  "cached a k p =
     (case a of
        Train_cuts \<Rightarrow> map_option (\<lambda>v. Train_returned (Inr v)) (map_of (train_cuts_cache p) k)
      | Dev_cuts \<Rightarrow> map_option (\<lambda>v. Dev_returned (Inr v)) (map_of (dev_cuts_cache p) k)
      | Test_cuts \<Rightarrow> map_option (\<lambda>v. Test_returned (Inr v)) (map_of (test_cuts_cache p) k))"

section \<open>Properties\<close>

lemma train_dataloaders_Inr:
  assumes "train_dataloaders env self cuts sd = Inr dl"
  obtains ts where "train_input_transforms env self = Inr ts"
    and "dl = \<lparr> dl_dataset = \<lparr> ds_field = ''discrete_tokens'', ds_num_tokens = 2000,
                   ds_frequency_size = Some 80, ds_token_type = ''wavlm'',
                   ds_input_transforms = Some ts \<rparr>,
                 dl_sampler =
                   (let s = (if bucketing_sampler (args self) then
                               new_sampler (DynamicBucketingSampler cuts
                                 (max_duration (args self)) (shuffle (args self))
                                 (Some (num_buckets (args self)))
                                 (Some (drop_last (args self))))
                             else
                               new_sampler (SimpleCutSampler cuts
                                 (max_duration (args self)) (shuffle (args self))))
                    in case sd of None \<Rightarrow> s | Some d \<Rightarrow> load_state_dict s d),
                 dl_batch_size = None,
                 dl_num_workers = num_workers (args self),
                 dl_persistent_workers = Some False,
                 dl_worker_init_fn = Some (SeedWorkers_init 42) \<rparr>"
  using assms
  by (cases "train_input_transforms env self")
     (auto simp add: train_dataloaders_def Let_def)

lemma constructed_load_state_dict [simp]:
  "constructed (load_state_dict s d) = constructed s"
  by (simp add: load_state_dict_def)

lemma constructed_new_sampler [simp]:
  "constructed (new_sampler c) = c"
  by (simp add: new_sampler_def)

subsection \<open>Worker seeding\<close>

text \<open>
  C1. For every base seed \<open>s\<close> and worker id \<open>w\<close>, the initializer built from \<open>s\<close>
  installs the seed \<open>s + w\<close> in worker \<open>w\<close>, whatever the worker's random state was.
  Whenever \<open>train_dataloaders\<close> returns a loader, its worker initializer is the one
  built from the base seed 42: no option of the namespace, no property of the installed
  library and no earlier random state of the process changes that.
\<close>

theorem worker_seed_is_base_plus_worker_id:
  "SeedWorkers_call (SeedWorkers_init s) w st = s + w \<and>
   (train_dataloaders env self cuts sd = Inr dl \<longrightarrow>
      dl_worker_init_fn dl = Some (SeedWorkers_init 42) \<and>
      (\<forall>w' st'. SeedWorkers_call (the (dl_worker_init_fn dl)) w' st' = 42 + w'))"
proof (intro conjI impI)
  show call: "SeedWorkers_call (SeedWorkers_init s) w st = s + w" for s w st
    by (simp add: SeedWorkers_call_def SeedWorkers_init_def fix_random_seed_def)
  assume "train_dataloaders env self cuts sd = Inr dl"
  then show init: "dl_worker_init_fn dl = Some (SeedWorkers_init 42)"
    by (elim train_dataloaders_Inr) simp
  show "\<forall>w' st'. SeedWorkers_call (the (dl_worker_init_fn dl)) w' st' = 42 + w'"
    by (simp add: init call)
qed

theorem worker_seed_is_base_plus_worker_id_witness:
  "SeedWorkers_call (SeedWorkers_init 42) 3 99 = 45 \<and>
   isl (train_dataloaders library_default_1 default_module training_cuts
          (None :: unit option)) = False \<and>
   dl_worker_init_fn
     (projr (train_dataloaders library_default_1 default_module training_cuts
          (None :: unit option))) = Some \<lparr> seed = 42 \<rparr>"
proof -
  obtain dl where dl:
    "train_dataloaders library_default_1 default_module training_cuts
       (None :: unit option) = Inr dl"
    by (simp add: train_dataloaders_def train_input_transforms_def library_default_1_def
        default_module_def add_arguments_def Let_def)
  from worker_seed_is_base_plus_worker_id [of 42 3 99 library_default_1 default_module
      training_cuts None dl] dl
  show ?thesis by (simp add: SeedWorkers_init_def)
qed

subsection \<open>Augmentation\<close>

text \<open>
  C5. When the enable-spec-aug flag is false, the list of input transforms that
  \<open>train_dataloaders\<close> builds is empty, whatever the installed library looks like,
  and the training dataset of every loader it returns was given that empty list: no
  augmentation transform is on the construction path.
\<close>

theorem no_transforms_when_spec_aug_disabled:
  assumes "\<not> enable_spec_aug (args self)"
  shows "train_input_transforms env self = Inr [] \<and>
         (train_dataloaders env self cuts sd = Inr dl \<longrightarrow>
            ds_input_transforms (dl_dataset dl) = Some [])"
proof (intro conjI impI)
  show none: "train_input_transforms env self = Inr []"
    using assms by (simp add: train_input_transforms_def)
  assume "train_dataloaders env self cuts sd = Inr dl"
  then show "ds_input_transforms (dl_dataset dl) = Some []"
    using none by (elim train_dataloaders_Inr) simp
qed

theorem no_transforms_when_spec_aug_disabled_witness:
  "enable_spec_aug (args plain_module) = False \<and>
   train_input_transforms library_default_1 plain_module = Inr [] \<and>
   isl (train_dataloaders library_default_1 plain_module training_cuts
          (None :: unit option)) = False \<and>
   ds_input_transforms (dl_dataset (projr
     (train_dataloaders library_default_1 plain_module training_cuts
          (None :: unit option)))) = Some []"
proof -
  have h: "\<not> enable_spec_aug (args plain_module)"
    by (simp add: plain_module_def add_arguments_def)
  obtain dl where dl:
    "train_dataloaders library_default_1 plain_module training_cuts
       (None :: unit option) = Inr dl"
    by (simp add: train_dataloaders_def train_input_transforms_def
        plain_module_def add_arguments_def Let_def)
  from no_transforms_when_spec_aug_disabled [OF h, of library_default_1 training_cuts
      None dl] dl h
  show ?thesis by simp
qed

text \<open>
  C6. When augmentation is enabled and the installed \<open>DiscretizedInputAugment\<close> has a
  parameter \<open>num_frame_masks\<close> with default \<open>d\<close>, the training dataset of every
  loader that \<open>train_dataloaders\<close> returns was given exactly one transform, with the
  fixed mask sizes and with \<open>num_frame_masks\<close> 2 if \<open>d == 1\<close> and 10 otherwise. In
  particular the integer default 1 gives 2 and every other integer default gives 10.
\<close>

theorem num_frame_masks_follows_library_default:
  assumes "enable_spec_aug (args self)"
    and "augment_init_parameters env ''num_frame_masks'' = Some d"
    and "train_dataloaders env self cuts sd = Inr dl"
  shows "ds_input_transforms (dl_dataset dl) =
           Some [DiscretizedInputAugment ''wavlm''
                   (spec_aug_time_warp_factor (args self))
                   (if py_eq_int d 1 then 2 else 10) 27 4 100] \<and>
         (d = PyInt 1 \<longrightarrow>
            map num_frame_masks (the (ds_input_transforms (dl_dataset dl))) = [2]) \<and>
         (\<forall>m. d = PyInt m \<and> m \<noteq> 1 \<longrightarrow>
            map num_frame_masks (the (ds_input_transforms (dl_dataset dl))) = [10])"
proof -
  have "train_input_transforms env self =
          Inr [DiscretizedInputAugment ''wavlm''
                 (spec_aug_time_warp_factor (args self))
                 (if py_eq_int d 1 then 2 else 10) 27 4 100]"
    using assms(1,2) by (simp add: train_input_transforms_def Let_def)
  with assms(3) have "ds_input_transforms (dl_dataset dl) =
           Some [DiscretizedInputAugment ''wavlm''
                   (spec_aug_time_warp_factor (args self))
                   (if py_eq_int d 1 then 2 else 10) 27 4 100]"
    by (elim train_dataloaders_Inr) simp
  then show ?thesis by simp
qed

theorem num_frame_masks_follows_library_default_witness:
  "enable_spec_aug (args default_module) \<and>
   augment_init_parameters library_default_1 ''num_frame_masks'' = Some (PyInt 1) \<and>
   augment_init_parameters library_default_10 ''num_frame_masks'' = Some (PyInt 10) \<and>
   isl (train_dataloaders library_default_1 default_module training_cuts
          (None :: unit option)) = False \<and>
   isl (train_dataloaders library_default_10 default_module training_cuts
          (None :: unit option)) = False \<and>
   ds_input_transforms (dl_dataset (projr
     (train_dataloaders library_default_1 default_module training_cuts
          (None :: unit option)))) =
     Some [DiscretizedInputAugment ''wavlm'' 80 2 27 4 100] \<and>
   ds_input_transforms (dl_dataset (projr
     (train_dataloaders library_default_10 default_module training_cuts
          (None :: unit option)))) =
     Some [DiscretizedInputAugment ''wavlm'' 80 10 27 4 100]"
proof -
  have h: "enable_spec_aug (args default_module)"
    by (simp add: default_module_def add_arguments_def)
  have d1: "augment_init_parameters library_default_1 ''num_frame_masks'' = Some (PyInt 1)"
    by (simp add: library_default_1_def)
  have d10: "augment_init_parameters library_default_10 ''num_frame_masks'' = Some (PyInt 10)"
    by (simp add: library_default_10_def)
  have w: "spec_aug_time_warp_factor (args default_module) = 80"
    by (simp add: default_module_def add_arguments_def)
  obtain dl where dl:
    "train_dataloaders library_default_1 default_module training_cuts
       (None :: unit option) = Inr dl"
    by (simp add: train_dataloaders_def train_input_transforms_def library_default_1_def
        default_module_def add_arguments_def Let_def)
  obtain dl' where dl':
    "train_dataloaders library_default_10 default_module training_cuts
       (None :: unit option) = Inr dl'"
    by (simp add: train_dataloaders_def train_input_transforms_def library_default_10_def
        default_module_def add_arguments_def Let_def)
  have a: "ds_input_transforms (dl_dataset dl) =
             Some [DiscretizedInputAugment ''wavlm'' 80 2 27 4 100]"
    using num_frame_masks_follows_library_default [OF h d1 dl] w by simp
  have b: "ds_input_transforms (dl_dataset dl') =
             Some [DiscretizedInputAugment ''wavlm'' 80 10 27 4 100]"
    using num_frame_masks_follows_library_default [OF h d10 dl'] w by simp
  show ?thesis
    using h d1 d10 by (simp add: dl dl' a b)
qed

subsection \<open>Samplers\<close>

text \<open>
  C7. Whenever \<open>train_dataloaders\<close> returns a loader: with the bucketing-sampler flag
  true its sampler was constructed as the bucketing sampler over the training cuts with
  the configured max duration, shuffle flag, bucket count and drop-last flag; with the
  flag false it was constructed as the simple sampler over the training cuts with the
  configured max duration and shuffle flag.
\<close>

theorem train_sampler_follows_bucketing_flag:
  assumes "train_dataloaders env self cuts sd = Inr dl"
  shows "(bucketing_sampler (args self) \<longrightarrow>
            constructed (dl_sampler dl) =
              DynamicBucketingSampler cuts (max_duration (args self)) (shuffle (args self))
                (Some (num_buckets (args self))) (Some (drop_last (args self)))) \<and>
         (\<not> bucketing_sampler (args self) \<longrightarrow>
            constructed (dl_sampler dl) =
              SimpleCutSampler cuts (max_duration (args self)) (shuffle (args self)))"
  using assms
  by (elim train_dataloaders_Inr) (simp add: Let_def split: option.split)

theorem train_sampler_follows_bucketing_flag_witness:
  "constructed (dl_sampler (projr
     (train_dataloaders library_default_1 default_module training_cuts (None :: unit option)))) =
     DynamicBucketingSampler training_cuts 1000 True (Some 30) (Some True) \<and>
   constructed (dl_sampler (projr
     (train_dataloaders library_default_1 plain_module training_cuts (None :: unit option)))) =
     SimpleCutSampler training_cuts 1000 True"
proof -
  obtain dl where dl:
    "train_dataloaders library_default_1 default_module training_cuts (None :: unit option) = Inr dl"
    by (simp add: train_dataloaders_def train_input_transforms_def library_default_1_def
        default_module_def add_arguments_def Let_def)
  obtain dl' where dl':
    "train_dataloaders library_default_1 plain_module training_cuts (None :: unit option) = Inr dl'"
    by (simp add: train_dataloaders_def train_input_transforms_def
        plain_module_def add_arguments_def Let_def)
  have a: "constructed (dl_sampler dl) =
             DynamicBucketingSampler training_cuts 1000 True (Some 30) (Some True)"
    using train_sampler_follows_bucketing_flag [OF dl]
    by (simp add: default_module_def add_arguments_def)
  have b: "constructed (dl_sampler dl') = SimpleCutSampler training_cuts 1000 True"
    using train_sampler_follows_bucketing_flag [OF dl']
    by (simp add: plain_module_def add_arguments_def)
  show ?thesis
    by (simp add: dl dl' a b)
qed

text \<open>
  C8. The datasets of \<open>valid_dataloaders\<close> and \<open>test_dataloaders\<close> are constructed
  with no input transforms argument at all, so the module hands them no augmentation;
  their samplers are constructed with \<open>shuffle=False\<close>; the validation loader has 2
  workers whatever the options say, and the test loader has the configured number.
\<close>

theorem valid_and_test_loaders_plain:
  "ds_input_transforms (dl_dataset (valid_dataloaders self cuts_valid)) = None \<and>
   ds_input_transforms (dl_dataset (test_dataloaders self cuts)) = None \<and>
   sampler_shuffle (constructed (dl_sampler (valid_dataloaders self cuts_valid))) = False \<and>
   sampler_shuffle (constructed (dl_sampler (test_dataloaders self cuts))) = False \<and>
   dl_num_workers (valid_dataloaders self cuts_valid) = 2 \<and>
   dl_num_workers (test_dataloaders self cuts) = num_workers (args self)"
  by (simp add: valid_dataloaders_def test_dataloaders_def Let_def)

text \<open>
  C10. \<open>valid_dataloaders\<close> and \<open>test_dataloaders\<close> always construct the bucketing
  sampler, and setting the bucketing-sampler flag to any value leaves their whole
  result unchanged. In \<open>train_dataloaders\<close> the flag reaches the sampler only: once
  the sampler of the returned loader is overwritten with a fixed one, the outcome no
  longer depends on the flag.
\<close>

theorem bucketing_flag_only_affects_training_sampler:
  "is_bucketing (constructed (dl_sampler (valid_dataloaders self cuts_valid))) \<and>
   is_bucketing (constructed (dl_sampler (test_dataloaders self cuts))) \<and>
   valid_dataloaders (self\<lparr> args := (args self)\<lparr> bucketing_sampler := b \<rparr> \<rparr>) cuts_valid =
     valid_dataloaders self cuts_valid \<and>
   test_dataloaders (self\<lparr> args := (args self)\<lparr> bucketing_sampler := b \<rparr> \<rparr>) cuts =
     test_dataloaders self cuts \<and>
   map_sum id (\<lambda>dl. dl\<lparr> dl_sampler := s0 \<rparr>)
     (train_dataloaders env (self\<lparr> args := (args self)\<lparr> bucketing_sampler := b \<rparr> \<rparr>)
        cuts_train sd) =
   map_sum id (\<lambda>dl. dl\<lparr> dl_sampler := s0 \<rparr>)
     (train_dataloaders env self cuts_train sd)"
proof -
  have "train_input_transforms env (self\<lparr> args := (args self)\<lparr> bucketing_sampler := b \<rparr> \<rparr>) =
        train_input_transforms env self"
    by (simp add: train_input_transforms_def Let_def split: option.split)
  then show ?thesis
    by (cases "train_input_transforms env self")
       (simp_all add: valid_dataloaders_def test_dataloaders_def train_dataloaders_def
          Let_def)
qed


subsection \<open>The cache\<close>

lemma lru_cache_call_hit:
  "map_of cache k = Some v \<Longrightarrow>
   lru_cache_call cache k f n = (Inr v, (k, v) # filter (\<lambda>kv. fst kv \<noteq> k) cache, n)"
  by (simp add: lru_cache_call_def)

lemma lru_cache_call_miss:
  "map_of cache k = None \<Longrightarrow>
   fst (lru_cache_call cache k f n) = fst (f n)"
  by (simp add: lru_cache_call_def split: prod.split sum.split)

lemma lru_cache_call_stores:
  assumes "lru_cache_call cache k f n = (Inr v, cache', n')"
  shows "map_of cache' k = Some v"
proof (cases "map_of cache k")
  case None
  with assms show ?thesis
    by (auto simp add: lru_cache_call_def lru_maxsize_def split: prod.splits sum.splits)
next
  case (Some u)
  with assms show ?thesis
    by (auto simp add: lru_cache_call_def)
qed

lemma lru_cache_call_keeps:
  assumes "map_of cache k = Some v"
    and "lru_cache_call cache k f n = (r, cache', n')"
  shows "r = Inr v \<and> map_of cache' k = Some v"
  using assms by (auto simp add: lru_cache_call_def)

lemma train_cuts_first_call:
  "map_of (train_cuts_cache p) (self_id self) = None \<Longrightarrow>
   fst (train_cuts fs self p) = fst (train_cuts_wrapped fs self (next_id p))"
  using lru_cache_call_miss [of "train_cuts_cache p" "self_id self"
      "train_cuts_wrapped fs self" "next_id p"]
  by (cases "lru_cache_call (train_cuts_cache p) (self_id self)
               (train_cuts_wrapped fs self) (next_id p)")
     (simp add: train_cuts_def)

lemma dev_cuts_first_call:
  "map_of (dev_cuts_cache p) (self_id self) = None \<Longrightarrow>
   fst (dev_cuts fs self p) = fst (dev_cuts_wrapped fs self (next_id p))"
  using lru_cache_call_miss [of "dev_cuts_cache p" "self_id self"
      "dev_cuts_wrapped fs self" "next_id p"]
  by (cases "lru_cache_call (dev_cuts_cache p) (self_id self)
               (dev_cuts_wrapped fs self) (next_id p)")
     (simp add: dev_cuts_def)

lemma load_manifest_lazy_Some:
  "fs path = Some cuts \<Longrightarrow> load_manifest_lazy fs path n = (Inr (Obj n cuts), Suc n)"
  by (simp add: load_manifest_lazy_def new_obj_def)

lemma load_manifest_lazy_Inr:
  assumes "load_manifest_lazy fs path n = (Inr c, n')"
  shows "fs path = Some (obj_value c) \<and> c = Obj n (obj_value c) \<and> n' = Suc n"
  using assms
  by (cases "fs path") (auto simp add: load_manifest_lazy_def raise_def new_obj_def)

lemma and_then_Inr:
  assumes "and_then m f n = (Inr b, n')"
  obtains a n1 where "m n = (Inr a, n1)" and "f a n1 = (Inr b, n')"
  using assms by (auto simp add: and_then_def split: prod.splits sum.splits)

subsection \<open>The accessors\<close>

lemma mux_of_three:
  assumes "and_then (load_manifest_lazy fs p1) (\<lambda>x.
           and_then (load_manifest_lazy fs p2) (\<lambda>y.
           and_then (load_manifest_lazy fs p3) (\<lambda>z.
           and_then (CutSet_mux [x, y, z] ws) (\<lambda>m. return (Some m))))) n = (Inr r, n')"
  shows "\<exists>a b c. r = Some (Obj (n + 3) (Mux [Obj n a, Obj (n + 1) b, Obj (n + 2) c] ws)) \<and>
                 fs p1 = Some a \<and> fs p2 = Some b \<and> fs p3 = Some c"
proof -
  from assms obtain x n1 where x: "load_manifest_lazy fs p1 n = (Inr x, n1)"
    and r1: "and_then (load_manifest_lazy fs p2) (\<lambda>y.
             and_then (load_manifest_lazy fs p3) (\<lambda>z.
             and_then (CutSet_mux [x, y, z] ws) (\<lambda>m. return (Some m)))) n1 = (Inr r, n')"
    by (rule and_then_Inr)
  from r1 obtain y n2 where y: "load_manifest_lazy fs p2 n1 = (Inr y, n2)"
    and r2: "and_then (load_manifest_lazy fs p3) (\<lambda>z.
             and_then (CutSet_mux [x, y, z] ws) (\<lambda>m. return (Some m))) n2 = (Inr r, n')"
    by (rule and_then_Inr)
  from r2 obtain z n3 where z: "load_manifest_lazy fs p3 n2 = (Inr z, n3)"
    and r3: "and_then (CutSet_mux [x, y, z] ws) (\<lambda>m. return (Some m)) n3 = (Inr r, n')"
    by (rule and_then_Inr)
  note lx = load_manifest_lazy_Inr [OF x]
  note ly = load_manifest_lazy_Inr [OF y]
  note lz = load_manifest_lazy_Inr [OF z]
  have n1: "n1 = n + 1" and n2: "n2 = n + 2" and n3: "n3 = n + 3"
    using lx ly lz by simp_all
  have "r = Some (Obj n3 (Mux [x, y, z] ws))"
    using r3 by (simp add: and_then_def CutSet_mux_def new_obj_def return_def)
  moreover have "x = Obj n (obj_value x)" "y = Obj (n + 1) (obj_value y)"
    "z = Obj (n + 2) (obj_value z)"
    using lx ly lz n1 n2 by simp_all
  ultimately have "r = Some (Obj (n + 3)
      (Mux [Obj n (obj_value x), Obj (n + 1) (obj_value y), Obj (n + 2) (obj_value z)] ws))"
    using n3 by simp
  with lx ly lz show ?thesis by blast
qed

text \<open>
  C2. On the first call for an instance (nothing cached for it yet), whenever
  \<open>train_cuts\<close> returns: for the subset M it returns the multiplexer of the three
  manifests of M (unperturbed, speed 0.9, speed 1.1, in this order), each loaded from
  its file, with the weights 909401, 909401, 909401; for the subset XL the multiplexer
  of the three manifests of XL with the weights 8277188, 8277188, 8277188.
\<close>

theorem train_cuts_mux_weights:
  assumes "map_of (train_cuts_cache p) (self_id self) = None"
    and "fst (train_cuts fs self p) = Inr r"
  shows "(subset (args self) = ''M'' \<longrightarrow>
          (\<exists>i a b c. r = Some (Obj i (Mux [a, b, c] [909401, 909401, 909401])) \<and>
             fs (path_join (manifest_dir (args self))
                   ''gigaspeech_cuts_M_future.jsonl.gz'') = Some (obj_value a) \<and>
             fs (path_join (manifest_dir (args self))
                   ''gigaspeech_cuts_M-sp0_9_future.jsonl.gz'') = Some (obj_value b) \<and>
             fs (path_join (manifest_dir (args self))
                   ''gigaspeech_cuts_M-sp1_1_future.jsonl.gz'') = Some (obj_value c))) \<and>
         (subset (args self) = ''XL'' \<longrightarrow>
          (\<exists>i a b c. r = Some (Obj i (Mux [a, b, c] [8277188, 8277188, 8277188])) \<and>
             fs (path_join (manifest_dir (args self))
                   ''gigaspeech_cuts_XL.jsonl.gz'') = Some (obj_value a) \<and>
             fs (path_join (manifest_dir (args self))
                   ''gigaspeech_cuts_XL-sp0_9.jsonl.gz'') = Some (obj_value b) \<and>
             fs (path_join (manifest_dir (args self))
                   ''gigaspeech_cuts_XL-sp1_1.jsonl.gz'') = Some (obj_value c)))"
proof -
  obtain n' where w: "train_cuts_wrapped fs self (next_id p) = (Inr r, n')"
    using assms train_cuts_first_call [OF assms(1), of fs]
    by (cases "train_cuts_wrapped fs self (next_id p)") simp
  show ?thesis
  proof (intro conjI impI)
    assume m: "subset (args self) = ''M''"
    from w m mux_of_three [of fs _ _ _ _ "next_id p" r n']
    show "\<exists>i a b c. r = Some (Obj i (Mux [a, b, c] [909401, 909401, 909401])) \<and>
             fs (path_join (manifest_dir (args self))
                   ''gigaspeech_cuts_M_future.jsonl.gz'') = Some (obj_value a) \<and>
             fs (path_join (manifest_dir (args self))
                   ''gigaspeech_cuts_M-sp0_9_future.jsonl.gz'') = Some (obj_value b) \<and>
             fs (path_join (manifest_dir (args self))
                   ''gigaspeech_cuts_M-sp1_1_future.jsonl.gz'') = Some (obj_value c)"
      by (fastforce simp add: train_cuts_wrapped_def)
  next
    assume x: "subset (args self) = ''XL''"
    from w x mux_of_three [of fs _ _ _ _ "next_id p" r n']
    show "\<exists>i a b c. r = Some (Obj i (Mux [a, b, c] [8277188, 8277188, 8277188])) \<and>
             fs (path_join (manifest_dir (args self))
                   ''gigaspeech_cuts_XL.jsonl.gz'') = Some (obj_value a) \<and>
             fs (path_join (manifest_dir (args self))
                   ''gigaspeech_cuts_XL-sp0_9.jsonl.gz'') = Some (obj_value b) \<and>
             fs (path_join (manifest_dir (args self))
                   ''gigaspeech_cuts_XL-sp1_1.jsonl.gz'') = Some (obj_value c)"
      by (fastforce simp add: train_cuts_wrapped_def)
  qed
qed


lemmas run_accessor =
  train_cuts_def dev_cuts_def test_cuts_def lru_cache_call_def lru_maxsize_def
  train_cuts_wrapped_def dev_cuts_wrapped_def test_cuts_wrapped_def
  and_then_def return_def raise_def new_obj_def load_manifest_lazy_def
  subset_first_def CutSet_mux_def path_join_def fresh_process_def

lemmas concrete_inputs =
  disk_def small_disk_def empty_disk_def default_module_def plain_module_def
  subset_module_def small_dev_module_def add_arguments_def

theorem train_cuts_mux_weights_witness:
  "map_of (train_cuts_cache (fresh_process :: nat process)) (self_id default_module) = None \<and>
   fst (train_cuts disk default_module fresh_process) =
     Inr (Some (Obj 3 (Mux [Obj 0 [10, 11, 12], Obj 1 [20, 21, 22], Obj 2 [30, 31, 32]]
                        [909401, 909401, 909401]))) \<and>
   fst (train_cuts disk (subset_module ''XL'') fresh_process) =
     Inr (Some (Obj 3 (Mux [Obj 0 [40, 41], Obj 1 [50, 51], Obj 2 [60, 61]]
                        [8277188, 8277188, 8277188])))"
proof -
  have h1: "map_of (train_cuts_cache (fresh_process :: nat process)) (self_id default_module)
            = None"
    by (simp add: fresh_process_def)
  have h1': "map_of (train_cuts_cache (fresh_process :: nat process))
               (self_id (subset_module ''XL'')) = None"
    by (simp add: fresh_process_def)
  have h2: "fst (train_cuts disk default_module fresh_process) =
     Inr (Some (Obj 3 (Mux [Obj 0 [10, 11, 12], Obj 1 [20, 21, 22], Obj 2 [30, 31, 32]]
                        [909401, 909401, 909401])))"
    by (simp add: run_accessor concrete_inputs)
  have h2': "fst (train_cuts disk (subset_module ''XL'') fresh_process) =
     Inr (Some (Obj 3 (Mux [Obj 0 [40, 41], Obj 1 [50, 51], Obj 2 [60, 61]]
                        [8277188, 8277188, 8277188])))"
    by (simp add: run_accessor concrete_inputs)
  from train_cuts_mux_weights [OF h1 h2] train_cuts_mux_weights [OF h1' h2']
  show ?thesis using h1 h2 h2' by simp
qed

text \<open>
  C9. For every subset other than M and XL, the first call of \<open>train_cuts\<close> for an
  instance returns Python's \<open>None\<close>: it raises nothing and reads no manifest, so this
  holds whatever is on disk. The subsets XS, S and L that the help text of
  \<open>--subset\<close> advertises are among them.
\<close>

theorem train_cuts_other_subset_None:
  assumes "subset (args self) \<noteq> ''M''" and "subset (args self) \<noteq> ''XL''"
    and "map_of (train_cuts_cache p) (self_id self) = None"
  shows "fst (train_cuts fs self p) = Inr None"
  using assms train_cuts_first_call [OF assms(3), of fs]
  by (simp add: train_cuts_wrapped_def return_def)

theorem train_cuts_other_subset_None_witness:
  "fst (train_cuts empty_disk (subset_module ''XS'') fresh_process) = Inr None \<and>
   fst (train_cuts empty_disk (subset_module ''S'') fresh_process) = Inr None \<and>
   fst (train_cuts disk (subset_module ''L'') fresh_process) = Inr None"
proof -
  have c: "map_of (train_cuts_cache (fresh_process :: nat process))
             (self_id (subset_module s)) = None" for s
    by (simp add: fresh_process_def)
  have xs: "subset (args (subset_module ''XS'')) \<noteq> ''M''"
    "subset (args (subset_module ''XS'')) \<noteq> ''XL''"
    by (simp_all add: subset_module_def)
  have s: "subset (args (subset_module ''S'')) \<noteq> ''M''"
    "subset (args (subset_module ''S'')) \<noteq> ''XL''"
    by (simp_all add: subset_module_def)
  have l: "subset (args (subset_module ''L'')) \<noteq> ''M''"
    "subset (args (subset_module ''L'')) \<noteq> ''XL''"
    by (simp_all add: subset_module_def)
  from train_cuts_other_subset_None [OF xs c, of empty_disk]
    train_cuts_other_subset_None [OF s c, of empty_disk]
    train_cuts_other_subset_None [OF l c, of disk]
  show ?thesis by simp
qed

text \<open>
  C3. Let the dev manifest hold the cuts \<open>full\<close>. On the first call for an instance,
  \<open>dev_cuts\<close> with the small-dev flag set returns a cut set of exactly the first 1000
  cuts of \<open>full\<close> (all of them when there are fewer), \<open>dev_cuts\<close> with the flag unset
  returns a cut set of the cuts \<open>full\<close>, and the former is a prefix of the latter.
\<close>

theorem small_dev_is_first_1000:
  assumes "map_of (dev_cuts_cache p) (self_id self) = None"
    and "fs (path_join (manifest_dir (args self)) ''gigaspeech_cuts_DEV_future.jsonl.gz'')
         = Some full"
  shows "\<exists>small_cuts all_cuts.
           fst (dev_cuts fs (self\<lparr> args := (args self)\<lparr> small_dev := True \<rparr> \<rparr>) p)
             = Inr small_cuts \<and>
           fst (dev_cuts fs (self\<lparr> args := (args self)\<lparr> small_dev := False \<rparr> \<rparr>) p)
             = Inr all_cuts \<and>
           obj_value all_cuts = full \<and>
           obj_value small_cuts = take 1000 (obj_value all_cuts) \<and>
           length (obj_value small_cuts) = min 1000 (length (obj_value all_cuts)) \<and>
           prefix (obj_value small_cuts) (obj_value all_cuts)"
proof -
  let ?on = "self\<lparr> args := (args self)\<lparr> small_dev := True \<rparr> \<rparr>"
  let ?off = "self\<lparr> args := (args self)\<lparr> small_dev := False \<rparr> \<rparr>"
  have "map_of (dev_cuts_cache p) (self_id ?on) = None"
    using assms(1) by simp
  then have on: "fst (dev_cuts fs ?on p) = fst (dev_cuts_wrapped fs ?on (next_id p))"
    by (rule dev_cuts_first_call)
  have "map_of (dev_cuts_cache p) (self_id ?off) = None"
    using assms(1) by simp
  then have off: "fst (dev_cuts fs ?off p) = fst (dev_cuts_wrapped fs ?off (next_id p))"
    by (rule dev_cuts_first_call)
  have "fst (dev_cuts_wrapped fs ?on (next_id p)) =
          Inr (Obj (Suc (next_id p)) (take 1000 full))"
    using assms(2)
    by (simp add: dev_cuts_wrapped_def and_then_def load_manifest_lazy_Some
        subset_first_def new_obj_def)
  moreover have "fst (dev_cuts_wrapped fs ?off (next_id p)) = Inr (Obj (next_id p) full)"
    using assms(2)
    by (simp add: dev_cuts_wrapped_def and_then_def load_manifest_lazy_Some return_def)
  ultimately show ?thesis
    using on off by (simp add: take_is_prefix)
qed

theorem small_dev_is_first_1000_witness:
  "fst (dev_cuts disk (small_dev_module True) fresh_process) = Inr (Obj 1 [0..<1000]) \<and>
   fst (dev_cuts disk (small_dev_module False) fresh_process) = Inr (Obj 0 [0..<1500]) \<and>
   prefix [0..<1000] [0..<1500] \<and>
   fst (dev_cuts small_disk (small_dev_module True) fresh_process) = Inr (Obj 1 [1, 2, 3])"
proof -
  have c: "map_of (dev_cuts_cache (fresh_process :: nat process))
             (self_id (small_dev_module True)) = None"
    by (simp add: fresh_process_def)
  have f: "disk (path_join (manifest_dir (args (small_dev_module True)))
             ''gigaspeech_cuts_DEV_future.jsonl.gz'') = Some [0..<1500]"
    by (simp add: concrete_inputs path_join_def)
  have on: "fst (dev_cuts disk (small_dev_module True) fresh_process) = Inr (Obj 1 [0..<1000])"
    by (simp add: run_accessor concrete_inputs)
  have off: "fst (dev_cuts disk (small_dev_module False) fresh_process) = Inr (Obj 0 [0..<1500])"
    by (simp add: run_accessor concrete_inputs)
  have few: "fst (dev_cuts small_disk (small_dev_module True) fresh_process) = Inr (Obj 1 [1, 2, 3])"
    by (simp add: run_accessor concrete_inputs)
  have eq: "(small_dev_module True)\<lparr> args := (args (small_dev_module True))\<lparr> small_dev := True \<rparr> \<rparr>
              = small_dev_module True"
    "(small_dev_module True)\<lparr> args := (args (small_dev_module True))\<lparr> small_dev := False \<rparr> \<rparr>
              = small_dev_module False"
    by (simp_all add: small_dev_module_def)
  from small_dev_is_first_1000 [where p = fresh_process and self = "small_dev_module True"
      and fs = disk and full = "[0..<1500]", OF c f]
  have "prefix [0..<1000] [0..<1500]"
    unfolding eq on off by auto
  then show ?thesis using on off few by simp
qed


subsection \<open>Memoization\<close>

lemma do_call_stores:
  assumes "do_call c p = (r, p')" and "has_returned r"
  shows "cached (call_accessor c) (self_id (call_self c)) p' = Some r"
proof (cases "call_accessor c")
  case Train_cuts
  obtain res cache' n' where l:
    "lru_cache_call (train_cuts_cache p) (self_id (call_self c))
       (train_cuts_wrapped (call_fs c) (call_self c)) (next_id p) = (res, cache', n')"
    by (rule prod_cases3)
  with assms Train_cuts have r: "r = Train_returned res"
    and p': "train_cuts_cache p' = cache'"
    by (auto simp add: do_call_def train_cuts_def)
  from r assms(2) obtain v where "res = Inr v" by (cases res) auto
  with l lru_cache_call_stores have "map_of cache' (self_id (call_self c)) = Some v"
    by fastforce
  with Train_cuts r p' \<open>res = Inr v\<close> show ?thesis by (simp add: cached_def)
next
  case Dev_cuts
  obtain res cache' n' where l:
    "lru_cache_call (dev_cuts_cache p) (self_id (call_self c))
       (dev_cuts_wrapped (call_fs c) (call_self c)) (next_id p) = (res, cache', n')"
    by (rule prod_cases3)
  with assms Dev_cuts have r: "r = Dev_returned res"
    and p': "dev_cuts_cache p' = cache'"
    by (auto simp add: do_call_def dev_cuts_def)
  from r assms(2) obtain v where "res = Inr v" by (cases res) auto
  with l lru_cache_call_stores have "map_of cache' (self_id (call_self c)) = Some v"
    by fastforce
  with Dev_cuts r p' \<open>res = Inr v\<close> show ?thesis by (simp add: cached_def)
next
  case Test_cuts
  obtain res cache' n' where l:
    "lru_cache_call (test_cuts_cache p) (self_id (call_self c))
       (test_cuts_wrapped (call_fs c) (call_self c)) (next_id p) = (res, cache', n')"
    by (rule prod_cases3)
  with assms Test_cuts have r: "r = Test_returned res"
    and p': "test_cuts_cache p' = cache'"
    by (auto simp add: do_call_def test_cuts_def)
  from r assms(2) obtain v where "res = Inr v" by (cases res) auto
  with l lru_cache_call_stores have "map_of cache' (self_id (call_self c)) = Some v"
    by fastforce
  with Test_cuts r p' \<open>res = Inr v\<close> show ?thesis by (simp add: cached_def)
qed

lemma do_call_keeps:
  assumes "cached a k p = Some v" and "self_id (call_self c) = k"
    and "do_call c p = (r, p')"
  shows "cached a k p' = Some v \<and> (call_accessor c = a \<longrightarrow> r = v)"
proof (cases "call_accessor c")
  case Train_cuts
  obtain res cache' n' where l:
    "lru_cache_call (train_cuts_cache p) k
       (train_cuts_wrapped (call_fs c) (call_self c)) (next_id p) = (res, cache', n')"
    by (rule prod_cases3)
  with assms Train_cuts have r: "r = Train_returned res"
    and p': "p' = p\<lparr> next_id := n', train_cuts_cache := cache' \<rparr>"
    by (auto simp add: do_call_def train_cuts_def)
  show ?thesis
  proof (cases a)
    case a: Train_cuts
    from assms(1) a obtain u where u: "map_of (train_cuts_cache p) k = Some u"
      and v: "v = Train_returned (Inr u)"
      by (auto simp add: cached_def)
    from lru_cache_call_keeps [OF u l] show ?thesis
      using a r p' v by (simp add: cached_def)
  qed (use assms(1) Train_cuts p' in \<open>simp_all add: cached_def\<close>)
next
  case Dev_cuts
  obtain res cache' n' where l:
    "lru_cache_call (dev_cuts_cache p) k
       (dev_cuts_wrapped (call_fs c) (call_self c)) (next_id p) = (res, cache', n')"
    by (rule prod_cases3)
  with assms Dev_cuts have r: "r = Dev_returned res"
    and p': "p' = p\<lparr> next_id := n', dev_cuts_cache := cache' \<rparr>"
    by (auto simp add: do_call_def dev_cuts_def)
  show ?thesis
  proof (cases a)
    case a: Dev_cuts
    from assms(1) a obtain u where u: "map_of (dev_cuts_cache p) k = Some u"
      and v: "v = Dev_returned (Inr u)"
      by (auto simp add: cached_def)
    from lru_cache_call_keeps [OF u l] show ?thesis
      using a r p' v by (simp add: cached_def)
  qed (use assms(1) Dev_cuts p' in \<open>simp_all add: cached_def\<close>)
next
  case Test_cuts
  obtain res cache' n' where l:
    "lru_cache_call (test_cuts_cache p) k
       (test_cuts_wrapped (call_fs c) (call_self c)) (next_id p) = (res, cache', n')"
    by (rule prod_cases3)
  with assms Test_cuts have r: "r = Test_returned res"
    and p': "p' = p\<lparr> next_id := n', test_cuts_cache := cache' \<rparr>"
    by (auto simp add: do_call_def test_cuts_def)
  show ?thesis
  proof (cases a)
    case a: Test_cuts
    from assms(1) a obtain u where u: "map_of (test_cuts_cache p) k = Some u"
      and v: "v = Test_returned (Inr u)"
      by (auto simp add: cached_def)
    from lru_cache_call_keeps [OF u l] show ?thesis
      using a r p' v by (simp add: cached_def)
  qed (use assms(1) Test_cuts p' in \<open>simp_all add: cached_def\<close>)
qed

lemma do_calls_length [simp]: "length (do_calls cs p) = length cs"
  by (induction cs arbitrary: p) (auto split: prod.split)

lemma do_calls_cached:
  assumes "cached a k p = Some v"
    and "\<forall>c \<in> set cs. self_id (call_self c) = k"
    and "j < length cs" and "call_accessor (cs ! j) = a"
  shows "do_calls cs p ! j = v"
  using assms
proof (induction cs arbitrary: p j)
  case Nil
  then show ?case by simp
next
  case (Cons c cs)
  obtain r p' where step: "do_call c p = (r, p')" by (rule prod.exhaust)
  from Cons.prems(1,2) step have keep: "cached a k p' = Some v"
    and same: "call_accessor c = a \<longrightarrow> r = v"
    using do_call_keeps [of a k p v c r p'] by simp_all
  show ?case
  proof (cases j)
    case 0
    with Cons.prems(4) same step show ?thesis by simp
  next
    case (Suc j')
    with Cons.prems have "do_calls cs p' ! j' = v"
      by (intro Cons.IH [OF keep]) simp_all
    with Suc step show ?thesis by simp
  qed
qed

text \<open>
  C4. Take any run of calls of \<open>train_cuts\<close>, \<open>dev_cuts\<close> and \<open>test_cuts\<close>, in any
  order, all on the same instance, from any state of the process; the manifests on disk
  and the options of the instance may even change between the calls. Once a call has
  returned (a cut set, or \<open>None\<close> from \<open>train_cuts\<close>), every later call of the same
  accessor returns the very same value: the same object identity with the same content.
\<close>

theorem accessors_memoized:
  assumes "\<forall>c \<in> set cs. self_id (call_self c) = k"
    and "i < j" and "j < length cs"
    and "call_accessor (cs ! j) = call_accessor (cs ! i)"
    and "has_returned (do_calls cs p ! i)"
  shows "do_calls cs p ! j = do_calls cs p ! i"
  using assms
proof (induction cs arbitrary: p i j)
  case Nil
  then show ?case by simp
next
  case (Cons c cs)
  obtain r p' where step: "do_call c p = (r, p')" by (rule prod.exhaust)
  from \<open>i < j\<close> obtain j' where j: "j = Suc j'" by (cases j) auto
  show ?case
  proof (cases i)
    case 0
    with Cons.prems(5) step have "has_returned r" by simp
    with step have "cached (call_accessor c) (self_id (call_self c)) p' = Some r"
      by (rule do_call_stores)
    moreover have "self_id (call_self c) = k" using Cons.prems(1) by simp
    ultimately have "cached (call_accessor c) k p' = Some r" by simp
    moreover have "\<forall>c \<in> set cs. self_id (call_self c) = k"
      using Cons.prems(1) by simp
    moreover have "j' < length cs"
      using Cons.prems(3) j by simp
    moreover have "call_accessor (cs ! j') = call_accessor c"
      using Cons.prems(4) 0 j by simp
    ultimately have "do_calls cs p' ! j' = r"
      by (rule do_calls_cached)
    with 0 j step show ?thesis by simp
  next
    case (Suc i')
    with Cons.prems j step have "do_calls cs p' ! j' = do_calls cs p' ! i'"
      by (intro Cons.IH) simp_all
    with Suc j step show ?thesis by simp
  qed
qed


lemma example_calls_run:
  "do_calls example_calls fresh_process =
     [Dev_returned (Inr (Obj 0 [0..<1500])),
      Train_returned (Inr (Some (Obj 4
        (Mux [Obj 1 [10, 11, 12], Obj 2 [20, 21, 22], Obj 3 [30, 31, 32]]
           [909401, 909401, 909401])))),
      Dev_returned (Inr (Obj 0 [0..<1500])),
      Test_returned (Inl (ManifestFault
        [''data'', ''fbank'', ''gigaspeech_cuts_TEST_future.jsonl.gz''])),
      Train_returned (Inr (Some (Obj 4
        (Mux [Obj 1 [10, 11, 12], Obj 2 [20, 21, 22], Obj 3 [30, 31, 32]]
           [909401, 909401, 909401]))))]"
  by (simp add: example_calls_def do_call_def run_accessor concrete_inputs)

theorem accessors_memoized_witness:
  "map (\<lambda>c. self_id (call_self c)) example_calls = [1, 1, 1, 1, 1] \<and>
   has_returned (do_calls example_calls fresh_process ! 0) \<and>
   do_calls example_calls fresh_process ! 2 = do_calls example_calls fresh_process ! 0 \<and>
   do_calls example_calls fresh_process ! 2 = Dev_returned (Inr (Obj 0 [0..<1500])) \<and>
   has_returned (do_calls example_calls fresh_process ! 1) \<and>
   do_calls example_calls fresh_process ! 4 = do_calls example_calls fresh_process ! 1"
proof -
  have ids: "\<forall>c \<in> set example_calls. self_id (call_self c) = 1"
    by (simp add: example_calls_def concrete_inputs)
  have len: "2 < length example_calls" "4 < length example_calls"
    by (simp_all add: example_calls_def)
  have acc: "call_accessor (example_calls ! 2) = call_accessor (example_calls ! 0)"
    "call_accessor (example_calls ! 4) = call_accessor (example_calls ! 1)"
    by (simp_all add: example_calls_def)
  have ret: "has_returned (do_calls example_calls fresh_process ! 0)"
    "has_returned (do_calls example_calls fresh_process ! 1)"
    by (simp_all add: example_calls_run)
  have lt: "(0::nat) < 2" "(1::nat) < 4" by simp_all
  from accessors_memoized [OF ids lt(1) len(1) acc(1) ret(1)]
    accessors_memoized [OF ids lt(2) len(2) acc(2) ret(2)]
  moreover have "map (\<lambda>c. self_id (call_self c)) example_calls = [1, 1, 1, 1, 1]"
    by (simp add: example_calls_def concrete_inputs)
  ultimately show ?thesis using ret by (simp add: example_calls_run)
qed


end
